theory Spec2Isabelle
  imports Complex_Main "HOL-Library.AList" "HOL-Library.Product_Lexorder"
begin

section \<open>JavaScript strings, values and exceptions\<close>

text \<open>
  A JavaScript string is a sequence of UTF-16 code units. A code unit is modelled as a
  natural number (below 65536 for a real string; no function below depends on the bound),
  so \<open>length\<close> counts what the \<^verbatim>\<open>length\<close> property of a string counts. \<open>str\<close> turns an
  ASCII literal into such a string.
\<close>

type_synonym jschar = nat
type_synonym jsstring = "jschar list"

definition str :: "string \<Rightarrow> jsstring" where
  "str s = map of_char s"

text \<open>
  What a function of \<^verbatim>\<open>util.ts\<close> can throw: the \<^verbatim>\<open>SyntaxError\<close> of \<^verbatim>\<open>JSON.parse\<close>, the
  \<^verbatim>\<open>TypeError\<close> of a property read on \<^verbatim>\<open>undefined\<close> or \<^verbatim>\<open>null\<close>, and whatever a library
  or the network raises (\<open>Error\<close>, with its message). A function that can throw returns
  \<open>js_error + 'a\<close>, with \<open>Inl\<close> for the exception.
\<close>

datatype js_error = SyntaxError | TypeError | Error jsstring

subsection \<open>Numbers\<close>

text \<open>
  A number is an IEEE 754 double: \<^verbatim>\<open>NaN\<close>, an infinity, the negative zero, or a finite
  value \<open>Fin r\<close> with its exact rational value \<open>r\<close> (\<open>Fin 0\<close> is the positive zero).
\<close>

datatype number = NaN | PosInf | NegInf | NegZero | Fin rat

text \<open>The unary minus.\<close>

fun negate :: "number \<Rightarrow> number" where
  "negate NaN = NaN"
| "negate PosInf = NegInf"
| "negate NegInf = PosInf"
| "negate NegZero = Fin 0"
| "negate (Fin r) = (if r = 0 then NegZero else Fin (- r))"

text \<open>
  The number value of a non-negative rational \<open>x\<close>: the double nearest to \<open>x\<close>, the one
  with an even significand when two are equally near, and the infinity from
  \<open>2 ^ 1024 - 2 ^ 970\<close> on. \<open>bit_length k\<close> is the number of binary digits of \<open>k\<close>, \<open>ilog2 x\<close> the
  exponent of the power of two at or below \<open>x\<close>, and \<open>pow2 (e - 52)\<close> the distance between
  neighbouring doubles from \<open>pow2 e\<close> up to \<open>pow2 (e + 1)\<close>; below \<open>pow2 (- 1022)\<close> the doubles
  keep the distance \<open>pow2 (- 1074)\<close>.
\<close>

function bit_length :: "int \<Rightarrow> nat" where
  "bit_length k = (if k \<le> 0 then 0 else Suc (bit_length (k div 2)))"
  by pat_completeness auto
termination
  by (relation "measure nat") auto

declare bit_length.simps [simp del]

definition ilog2 :: "rat \<Rightarrow> int" where
  "ilog2 x =
     (if 1 \<le> x then int (bit_length \<lfloor>x\<rfloor>) - 1
      else - int (bit_length (\<lceil>1 / x\<rceil> - 1)))"

definition pow2 :: "int \<Rightarrow> rat" where
  "pow2 e = (if 0 \<le> e then 2 ^ nat e else 1 / 2 ^ nat (- e))"

definition round_half_even :: "rat \<Rightarrow> int" where
  "round_half_even q =
     (if q - of_int \<lfloor>q\<rfloor> < 1 / 2 then \<lfloor>q\<rfloor>
      else if 1 / 2 < q - of_int \<lfloor>q\<rfloor> then \<lfloor>q\<rfloor> + 1
      else if even \<lfloor>q\<rfloor> then \<lfloor>q\<rfloor>
      else \<lfloor>q\<rfloor> + 1)"

definition to_double :: "rat \<Rightarrow> number" where
  "to_double x =
     (if x \<le> 0 then Fin 0
      else if 1024 \<le> max (ilog2 x) (- 1022) \<or>
              max (ilog2 x) (- 1022) = 1023 \<and>
              round_half_even (x / pow2 (max (ilog2 x) (- 1022) - 52)) = 2 ^ 53
      then PosInf
      else Fin (of_int (round_half_even (x / pow2 (max (ilog2 x) (- 1022) - 52))) *
                pow2 (max (ilog2 x) (- 1022) - 52)))"

text \<open>The number value of a rational of either sign.\<close>

definition round_signed :: "rat \<Rightarrow> number" where
  "round_signed d = (if d < 0 then negate (to_double (- d)) else to_double d)"

text \<open>The value of a finite number; both zeros have the value 0.\<close>

fun finite_value :: "number \<Rightarrow> rat option" where
  "finite_value (Fin r) = Some r"
| "finite_value NegZero = Some 0"
| "finite_value _ = None"

text \<open>
  Equality of numbers, as \<^verbatim>\<open>===\<close> has it: \<^verbatim>\<open>NaN\<close> equals nothing, and the two zeros are
  equal.
\<close>

definition num_eq :: "number \<Rightarrow> number \<Rightarrow> bool" where
  "num_eq a b =
     (case (finite_value a, finite_value b) of
        (Some x, Some y) \<Rightarrow> x = y
      | (None, None) \<Rightarrow> a = b \<and> a \<noteq> NaN
      | _ \<Rightarrow> False)"



subsection \<open>Values\<close>

text \<open>
  The values \<^verbatim>\<open>JSON.parse\<close> produces, and \<^verbatim>\<open>undefined\<close>. An object is the list of its own
  properties in insertion order, with distinct keys.
\<close>

datatype jsval =
    JUndefined
  | JNull
  | JBool bool
  | JNum number
  | JStr jsstring
  | JArr "jsval list"
  | JObj "(jsstring \<times> jsval) list"

text \<open>The truthiness of a value, as \<^verbatim>\<open>!v\<close> and \<^verbatim>\<open>v || d\<close> test it.\<close>

fun ToBoolean :: "jsval \<Rightarrow> bool" where
  "ToBoolean JUndefined = False"
| "ToBoolean JNull = False"
| "ToBoolean (JBool b) = b"
| "ToBoolean (JNum n) = (n \<noteq> NaN \<and> n \<noteq> NegZero \<and> n \<noteq> Fin 0)"
| "ToBoolean (JStr s) = (s \<noteq> [])"
| "ToBoolean (JArr xs) = True"
| "ToBoolean (JObj kvs) = True"

text \<open>
  Strict equality \<^verbatim>\<open>===\<close>. Arrays and objects are equal only when they are the same
  object; every array or object compared in this module comes out of a call of
  \<^verbatim>\<open>JSON.parse\<close> of its own, or is compared with a number, so they are never equal.
\<close>

fun strict_eq :: "jsval \<Rightarrow> jsval \<Rightarrow> bool" where
  "strict_eq JUndefined JUndefined = True"
| "strict_eq JNull JNull = True"
| "strict_eq (JBool a) (JBool b) = (a = b)"
| "strict_eq (JNum a) (JNum b) = num_eq a b"
| "strict_eq (JStr a) (JStr b) = (a = b)"
| "strict_eq _ _ = False"

subsection \<open>Decimal numerals\<close>

definition is_digit :: "jschar \<Rightarrow> bool" where
  "is_digit c \<longleftrightarrow> 0x30 \<le> c \<and> c \<le> 0x39"

definition int_of_digits :: "jsstring \<Rightarrow> int" where
  "int_of_digits ds = foldl (\<lambda>a c. 10 * a + (int c - 0x30)) 0 ds"

text \<open>The decimal digits of a natural number: \<^verbatim>\<open>String(n)\<close> for a non-negative integer.\<close>

function digits :: "nat \<Rightarrow> jsstring" where
  "digits n = (if n < 10 then [0x30 + n] else digits (n div 10) @ [0x30 + n mod 10])"
  by pat_completeness auto
termination
  by (relation "measure id") auto

declare digits.simps [simp del]

text \<open>
  A property key that is an array index: a canonical decimal numeral (no sign, no leading
  zero).
\<close>

definition index_of :: "jsstring \<Rightarrow> nat option" where
  "index_of k =
     (if k \<noteq> [] \<and> list_all is_digit k \<and> (length k = 1 \<or> hd k \<noteq> 0x30)
      then Some (nat (int_of_digits k)) else None)"

subsection \<open>Reading a property\<close>

text \<open>
  \<^verbatim>\<open>v[k]\<close>, \<^verbatim>\<open>v.k\<close> and the destructuring \<^verbatim>\<open>const { k } = v\<close>: a \<^verbatim>\<open>TypeError\<close> on
  \<^verbatim>\<open>undefined\<close> and \<^verbatim>\<open>null\<close>, the own property of an object, the length and the
  elements of an array or a string, and \<^verbatim>\<open>undefined\<close> otherwise. Properties inherited
  from the built-in prototypes (methods such as \<^verbatim>\<open>toString\<close>) are not modelled: the module
  reads \<^verbatim>\<open>bbox\<close>, \<^verbatim>\<open>length\<close>, \<^verbatim>\<open>0\<close> and \<^verbatim>\<open>1\<close>, which no prototype defines.
\<close>

fun js_get :: "jsval \<Rightarrow> jsstring \<Rightarrow> js_error + jsval" where
  "js_get JUndefined k = Inl TypeError"
| "js_get JNull k = Inl TypeError"
| "js_get (JObj kvs) k = Inr (case map_of kvs k of None \<Rightarrow> JUndefined | Some v \<Rightarrow> v)"
| "js_get (JArr xs) k =
     Inr (if k = str ''length'' then JNum (Fin (of_nat (length xs)))
          else case index_of k of
                 None \<Rightarrow> JUndefined
               | Some i \<Rightarrow> if i < length xs then xs ! i else JUndefined)"
| "js_get (JStr s) k =
     Inr (if k = str ''length'' then JNum (Fin (of_nat (length s)))
          else case index_of k of
                 None \<Rightarrow> JUndefined
               | Some i \<Rightarrow> if i < length s then JStr [s ! i] else JUndefined)"
| "js_get (JBool b) k = Inr JUndefined"
| "js_get (JNum n) k = Inr JUndefined"

text \<open>\<^verbatim>\<open>v[i]\<close> for an integer literal \<open>i\<close>: the property whose key is \<^verbatim>\<open>String(i)\<close>.\<close>

definition js_index :: "jsval \<Rightarrow> nat \<Rightarrow> js_error + jsval" where
  "js_index v i = js_get v (digits i)"

section \<open>\<^verbatim>\<open>JSON.parse\<close>\<close>

text \<open>
  The built-in \<^verbatim>\<open>JSON.parse\<close> (without a reviver), after the JSON grammar of ECMA-404 as
  ECMAScript reads it: a lexer, then a pushdown automaton over the tokens. Every input
  that is not one JSON value surrounded by white space is a \<^verbatim>\<open>SyntaxError\<close>.
\<close>

datatype token =
    TLBrace | TRBrace | TLBracket | TRBracket | TColon | TComma
  | TString jsstring | TNumber number | TTrue | TFalse | TNull

definition is_ws :: "jschar \<Rightarrow> bool" where
  "is_ws c \<longleftrightarrow> c = 0x20 \<or> c = 0x09 \<or> c = 0x0A \<or> c = 0x0D"

definition hex_val :: "jschar \<Rightarrow> nat option" where
  "hex_val c =
     (if 0x30 \<le> c \<and> c \<le> 0x39 then Some (c - 0x30)
      else if 0x41 \<le> c \<and> c \<le> 0x46 then Some (c - 0x37)
      else if 0x61 \<le> c \<and> c \<le> 0x66 then Some (c - 0x57)
      else None)"

text \<open>The character after a backslash, for the escapes of one character.\<close>

definition unescape :: "jschar \<Rightarrow> jschar option" where
  "unescape e =
     (if e = 0x22 then Some 0x22
      else if e = 0x5C then Some 0x5C
      else if e = 0x2F then Some 0x2F
      else if e = 0x62 then Some 0x08
      else if e = 0x66 then Some 0x0C
      else if e = 0x6E then Some 0x0A
      else if e = 0x72 then Some 0x0D
      else if e = 0x74 then Some 0x09
      else None)"

definition cons_chr :: "jschar \<Rightarrow> (jsstring \<times> jsstring) option \<Rightarrow> (jsstring \<times> jsstring) option" where
  "cons_chr c r = (case r of None \<Rightarrow> None | Some (s, rest) \<Rightarrow> Some (c # s, rest))"

text \<open>
  The rest of a string literal after its opening quote: the string it denotes and the
  input after the closing quote. A control character, an unknown escape and a missing
  closing quote are errors.
\<close>

fun lex_string :: "jsstring \<Rightarrow> (jsstring \<times> jsstring) option" where
  "lex_string [] = None"
| "lex_string (c # cs) =
     (if c = 0x22 then Some ([], cs)
      else if c < 0x20 then None
      else if c = 0x5C then
        (case cs of
           [] \<Rightarrow> None
         | e # r \<Rightarrow>
             if e = 0x75 then
               (case r of
                  h1 # h2 # h3 # h4 # r' \<Rightarrow>
                    (case (hex_val h1, hex_val h2, hex_val h3, hex_val h4) of
                       (Some a, Some b, Some c', Some d) \<Rightarrow>
                         cons_chr (((a * 16 + b) * 16 + c') * 16 + d) (lex_string r')
                     | _ \<Rightarrow> None)
                | _ \<Rightarrow> None)
             else
               (case unescape e of
                  None \<Rightarrow> None
                | Some u \<Rightarrow> cons_chr u (lex_string r)))
      else cons_chr c (lex_string cs))"

text \<open>
  A number literal: an optional minus, an integer part without a leading zero, an
  optional fraction, an optional exponent. Its value is the number value of the decimal
  numeral, negated after a minus.
\<close>

definition lex_int :: "jsstring \<Rightarrow> (jsstring \<times> jsstring) option" where
  "lex_int s =
     (case s of
        [] \<Rightarrow> None
      | c # r \<Rightarrow>
          if c = 0x30 then Some ([c], r)
          else if is_digit c then Some (takeWhile is_digit s, dropWhile is_digit s)
          else None)"

definition lex_frac :: "jsstring \<Rightarrow> (jsstring \<times> jsstring) option" where
  "lex_frac s =
     (case s of
        [] \<Rightarrow> Some ([], s)
      | c # r \<Rightarrow>
          if c = 0x2E then
            (if takeWhile is_digit r = [] then None
             else Some (takeWhile is_digit r, dropWhile is_digit r))
          else Some ([], s))"

definition lex_exp_digits :: "int \<Rightarrow> jsstring \<Rightarrow> (int \<times> jsstring) option" where
  "lex_exp_digits sg s =
     (if takeWhile is_digit s = [] then None
      else Some (sg * int_of_digits (takeWhile is_digit s), dropWhile is_digit s))"

definition lex_exp :: "jsstring \<Rightarrow> (int \<times> jsstring) option" where
  "lex_exp s =
     (case s of
        [] \<Rightarrow> Some (0, s)
      | c # r \<Rightarrow>
          if c = 0x65 \<or> c = 0x45 then
            (case r of
               [] \<Rightarrow> None
             | d # r' \<Rightarrow>
                 if d = 0x2D then lex_exp_digits (- 1) r'
                 else if d = 0x2B then lex_exp_digits 1 r'
                 else lex_exp_digits 1 r)
          else Some (0, s))"

definition decimal_value :: "jsstring \<Rightarrow> jsstring \<Rightarrow> int \<Rightarrow> rat" where
  "decimal_value ip fp ex =
     (if 0 \<le> ex - int (length fp)
      then of_int (int_of_digits (ip @ fp)) * 10 ^ nat (ex - int (length fp))
      else of_int (int_of_digits (ip @ fp)) / 10 ^ nat (int (length fp) - ex))"

definition number_value :: "bool \<Rightarrow> jsstring \<Rightarrow> jsstring \<Rightarrow> int \<Rightarrow> number" where
  "number_value neg ip fp ex =
     (if neg then negate (to_double (decimal_value ip fp ex))
      else to_double (decimal_value ip fp ex))"

definition lex_unsigned :: "bool \<Rightarrow> jsstring \<Rightarrow> (number \<times> jsstring) option" where
  "lex_unsigned neg s =
     (case lex_int s of
        None \<Rightarrow> None
      | Some (ip, s2) \<Rightarrow>
          (case lex_frac s2 of
             None \<Rightarrow> None
           | Some (fp, s3) \<Rightarrow>
               (case lex_exp s3 of
                  None \<Rightarrow> None
                | Some (ex, s4) \<Rightarrow> Some (number_value neg ip fp ex, s4))))"

definition lex_number :: "jsstring \<Rightarrow> (number \<times> jsstring) option" where
  "lex_number s =
     (case s of
        [] \<Rightarrow> None
      | c # r \<Rightarrow> if c = 0x2D then lex_unsigned True r else lex_unsigned False s)"

lemma cons_chr_length:
  "cons_chr c r = Some (s, rest) \<Longrightarrow> \<exists>s'. r = Some (s', rest)"
  by (cases r) (auto simp: cons_chr_def)

lemma lex_escape_cases:
  assumes "lex_string (0x5C # cs) = Some (x, rest)"
  shows "(\<exists>e r y. cs = e # r \<and> lex_string r = Some (y, rest)) \<or>
         (\<exists>e h1 h2 h3 h4 r y. cs = e # h1 # h2 # h3 # h4 # r \<and> lex_string r = Some (y, rest))"
proof (cases cs)
  case Nil
  with assms show ?thesis by simp
next
  case (Cons e r)
  show ?thesis
  proof (cases "e = 0x75")
    case False
    with assms Cons show ?thesis
      by (auto split: option.splits dest!: cons_chr_length)
  next
    case True
    with assms Cons obtain h1 h2 h3 h4 r' where r: "r = h1 # h2 # h3 # h4 # r'"
      by (simp split: list.splits)
    with assms Cons True have "\<exists>y. lex_string r' = Some (y, rest)"
      by (simp split: option.splits) (auto dest!: cons_chr_length)
    with Cons r show ?thesis by blast
  qed
qed

lemma lex_string_length: "lex_string s = Some (x, rest) \<Longrightarrow> length rest < length s"
proof (induction "length s" arbitrary: s x rest rule: less_induct)
  case less
  from less.prems obtain c cs where s: "s = c # cs"
    by (cases s) auto
  have IH: "\<And>t y. length t < length s \<Longrightarrow> lex_string t = Some (y, rest) \<Longrightarrow> length rest < length s"
    using less.hyps by fastforce
  show ?case
  proof (cases "c = 0x5C")
    case True
    with less.prems s have "lex_string (0x5C # cs) = Some (x, rest)" by simp
    from lex_escape_cases [OF this] show ?thesis
    proof (elim disjE exE conjE)
      fix e r y
      assume "cs = e # r" "lex_string r = Some (y, rest)"
      then show ?thesis using IH [of r y] s by simp
    next
      fix e h1 h2 h3 h4 r y
      assume "cs = e # h1 # h2 # h3 # h4 # r" "lex_string r = Some (y, rest)"
      then show ?thesis using IH [of r y] s by simp
    qed
  next
    case False
    with less.prems s have "rest = cs \<or> (\<exists>y. lex_string cs = Some (y, rest))"
      by (auto split: if_splits dest!: cons_chr_length)
    then show ?thesis using IH [of cs] s by auto
  qed
qed

lemma lex_exp_digits_length: "lex_exp_digits sg s = Some (e, rest) \<Longrightarrow> length rest \<le> length s"
  by (auto simp: lex_exp_digits_def length_dropWhile_le split: if_splits)

lemma lex_exp_length: "lex_exp s = Some (e, rest) \<Longrightarrow> length rest \<le> length s"
  by (auto simp: lex_exp_def split: list.splits if_splits
      dest!: lex_exp_digits_length)

lemma lex_frac_length: "lex_frac s = Some (f, rest) \<Longrightarrow> length rest \<le> length s"
  by (auto simp: lex_frac_def length_dropWhile_le le_SucI split: list.splits if_splits)

lemma lex_int_length: "lex_int s = Some (i, rest) \<Longrightarrow> length rest < length s"
  by (auto simp: lex_int_def le_imp_less_Suc length_dropWhile_le split: list.splits if_splits)

lemma lex_unsigned_length: "lex_unsigned neg s = Some (n, rest) \<Longrightarrow> length rest < length s"
  by (auto simp: lex_unsigned_def split: option.splits
      dest!: lex_int_length lex_frac_length lex_exp_length)

lemma lex_number_length: "lex_number s = Some (n, rest) \<Longrightarrow> length rest < length s"
  by (auto simp: lex_number_def split: list.splits if_splits dest!: lex_unsigned_length)

definition cons_tok :: "token \<Rightarrow> token list option \<Rightarrow> token list option" where
  "cons_tok t r = map_option (Cons t) r"

function lex :: "jsstring \<Rightarrow> token list option" where
  "lex [] = Some []"
| "lex (c # cs) =
     (if is_ws c then lex cs
      else if c = 0x7B then cons_tok TLBrace (lex cs)
      else if c = 0x7D then cons_tok TRBrace (lex cs)
      else if c = 0x5B then cons_tok TLBracket (lex cs)
      else if c = 0x5D then cons_tok TRBracket (lex cs)
      else if c = 0x3A then cons_tok TColon (lex cs)
      else if c = 0x2C then cons_tok TComma (lex cs)
      else if c = 0x22 then
        (case lex_string cs of
           None \<Rightarrow> None
         | Some (s, r) \<Rightarrow> cons_tok (TString s) (lex r))
      else if c = 0x2D \<or> is_digit c then
        (case lex_number (c # cs) of
           None \<Rightarrow> None
         | Some (n, r) \<Rightarrow> cons_tok (TNumber n) (lex r))
      else if take 4 (c # cs) = str ''true'' then cons_tok TTrue (lex (drop 3 cs))
      else if take 5 (c # cs) = str ''false'' then cons_tok TFalse (lex (drop 4 cs))
      else if take 4 (c # cs) = str ''null'' then cons_tok TNull (lex (drop 3 cs))
      else None)"
  by pat_completeness auto
termination
proof (relation "measure length")
  fix c cs x2 x y
  assume "lex_string cs = Some x2" "(x, y) = x2"
  then show "(y, c # cs) \<in> measure length"
    using lex_string_length [of cs x y] by simp
next
  fix c cs x2 x y
  assume "lex_number (c # cs) = Some x2" "(x, y) = x2"
  then show "(y, c # cs) \<in> measure length"
    using lex_number_length [of "c # cs" x y] by simp
qed auto

declare lex.simps [simp del]

text \<open>
  The automaton. A frame is a container whose next element is being read: an array with
  its elements so far, or an object with its members so far and the key of the member
  being read.
\<close>

datatype frame =
    FArr "jsval list"
  | FObj "(jsstring \<times> jsval) list" jsstring

datatype pstate =
    SValue "frame list"
  | SArrFirst "frame list"
  | SObjFirst "frame list"
  | SKey "(jsstring \<times> jsval) list" "frame list"
  | SColon "(jsstring \<times> jsval) list" jsstring "frame list"
  | SArrNext "jsval list" "frame list"
  | SObjNext "(jsstring \<times> jsval) list" "frame list"
  | SDone jsval

text \<open>
  A value is complete: it is the result, the next element of the array on top of the
  stack, or the value of the pending key of the object on top; a key that is already
  there keeps its place and takes the new value.
\<close>

fun complete :: "frame list \<Rightarrow> jsval \<Rightarrow> pstate" where
  "complete [] v = SDone v"
| "complete (FArr acc # st) v = SArrNext (acc @ [v]) st"
| "complete (FObj acc k # st) v = SObjNext (AList.update k v acc) st"

fun start_value :: "frame list \<Rightarrow> token \<Rightarrow> pstate option" where
  "start_value st (TString s) = Some (complete st (JStr s))"
| "start_value st (TNumber n) = Some (complete st (JNum n))"
| "start_value st TTrue = Some (complete st (JBool True))"
| "start_value st TFalse = Some (complete st (JBool False))"
| "start_value st TNull = Some (complete st JNull)"
| "start_value st TLBracket = Some (SArrFirst st)"
| "start_value st TLBrace = Some (SObjFirst st)"
| "start_value st _ = None"

fun step :: "pstate \<Rightarrow> token \<Rightarrow> pstate option" where
  "step (SValue st) t = start_value st t"
| "step (SArrFirst st) t =
     (if t = TRBracket then Some (complete st (JArr [])) else start_value (FArr [] # st) t)"
| "step (SObjFirst st) t =
     (case t of
        TRBrace \<Rightarrow> Some (complete st (JObj []))
      | TString k \<Rightarrow> Some (SColon [] k st)
      | _ \<Rightarrow> None)"
| "step (SKey acc st) t = (case t of TString k \<Rightarrow> Some (SColon acc k st) | _ \<Rightarrow> None)"
| "step (SColon acc k st) t = (if t = TColon then Some (SValue (FObj acc k # st)) else None)"
| "step (SArrNext acc st) t =
     (case t of
        TComma \<Rightarrow> Some (SValue (FArr acc # st))
      | TRBracket \<Rightarrow> Some (complete st (JArr acc))
      | _ \<Rightarrow> None)"
| "step (SObjNext acc st) t =
     (case t of
        TComma \<Rightarrow> Some (SKey acc st)
      | TRBrace \<Rightarrow> Some (complete st (JObj acc))
      | _ \<Rightarrow> None)"
| "step (SDone v) t = None"

fun run :: "pstate \<Rightarrow> token list \<Rightarrow> pstate option" where
  "run s [] = Some s"
| "run s (t # ts) = (case step s t of None \<Rightarrow> None | Some s' \<Rightarrow> run s' ts)"

definition JSON_parse :: "jsstring \<Rightarrow> js_error + jsval" where
  "JSON_parse text =
     (case lex text of
        None \<Rightarrow> Inl SyntaxError
      | Some ts \<Rightarrow>
          (case run (SValue []) ts of
             Some (SDone v) \<Rightarrow> Inr v
           | _ \<Rightarrow> Inl SyntaxError))"

section \<open>Highlight geometry\<close>

record HighlightPoint =
  left :: jsval
  top' :: jsval

text \<open>
  \<^verbatim>\<open>getHighlightPoint\<close>: the destructuring of the parsed value reads its \<^verbatim>\<open>bbox\<close>
  property; \<^verbatim>\<open>||\<close> does not read \<^verbatim>\<open>bbox.length\<close> when \<^verbatim>\<open>bbox\<close> is falsy.
\<close>

definition getHighlightPoint :: "jsstring \<Rightarrow> js_error + HighlightPoint" where
  "getHighlightPoint patch =
     (case JSON_parse patch of
        Inl e \<Rightarrow> Inl e
      | Inr parsed \<Rightarrow>
          (case js_get parsed (str ''bbox'') of
             Inl e \<Rightarrow> Inl e
           | Inr bbox \<Rightarrow>
               if \<not> ToBoolean bbox then Inr \<lparr>left = JNum (Fin 0), top' = JNum (Fin 0)\<rparr>
               else
                 (case js_get bbox (str ''length'') of
                    Inl e \<Rightarrow> Inl e
                  | Inr len \<Rightarrow>
                      if \<not> strict_eq len (JNum (Fin 4)) then Inr \<lparr>left = JNum (Fin 0), top' = JNum (Fin 0)\<rparr>
                      else
                        (case js_index bbox 0 of
                           Inl e \<Rightarrow> Inl e
                         | Inr l \<Rightarrow>
                             (case js_index bbox 1 of
                                Inl e \<Rightarrow> Inl e
                              | Inr t \<Rightarrow> Inr \<lparr>left = l, top' = t\<rparr>)))))"



subsection \<open>The domain records\<close>

record Label =
  name :: jsstring

datatype HighlightType = HIGHLIGHT | NOTE | REDACTION

record Highlight =
  highlight_id :: jsstring
  quote :: jsstring
  annotation :: jsstring
  highlight_patch :: jsstring
  highlight_updatedAt :: jsstring
  highlight_labels :: "Label list option"
  highlight_type :: HighlightType

datatype PageType = ARTICLE | BOOK | FILE | PROFILE | UNKNOWN | WEBSITE | HIGHLIGHTS

record Article =
  title :: jsstring
  siteName :: jsstring
  originalArticleUrl :: jsstring
  author :: jsstring
  description :: jsstring
  slug :: jsstring
  labels :: "Label list option"
  highlights :: "Highlight list option"
  article_updatedAt :: jsstring
  savedAt :: jsstring
  pageType :: PageType
  content :: "jsstring option"
  publishedAt :: "jsstring option"

subsection \<open>The order of highlights in a file\<close>




section \<open>Text utilities\<close>

text \<open>
  \<^verbatim>\<open>markdownEscape\<close>. The function \<^verbatim>\<open>escape\<close> of the library markdown-escape is a
  parameter that may throw; the console is the list of what \<^verbatim>\<open>console.error\<close> has
  printed.
\<close>

type_synonym console = "(jsstring \<times> js_error) list"

definition markdownEscape ::
  "(jsstring \<Rightarrow> js_error + jsstring) \<Rightarrow> jsstring \<Rightarrow> console \<Rightarrow> (js_error + jsstring) \<times> console" where
  "markdownEscape escape text con =
     (case escape text of
        Inr escaped \<Rightarrow> (Inr escaped, con)
      | Inl e \<Rightarrow> (Inr text, con @ [(str ''markdownEscape error'', e)]))"

text \<open>
  \<^verbatim>\<open>String.prototype.replace\<close> with a global regular expression that matches one
  character, and a replacement without \<^verbatim>\<open>$\<close> patterns: the matches are replaced from left
  to right, and the replacement is not searched again.
\<close>

fun replace_global :: "jschar \<Rightarrow> jsstring \<Rightarrow> jsstring \<Rightarrow> jsstring" where
  "replace_global p rep [] = []"
| "replace_global p rep (c # cs) =
     (if c = p then rep @ replace_global p rep cs else c # replace_global p rep cs)"

definition escapeQuotationMarks :: "jsstring \<Rightarrow> jsstring" where
  "escapeQuotationMarks text = replace_global 0x22 [0x5C, 0x22] text"

text \<open>
  \<^verbatim>\<open>parseDateTime\<close>. \<^verbatim>\<open>DateTime.fromFormat\<close> and \<^verbatim>\<open>isValid\<close> belong to the library luxon
  and are parameters; \<open>'dt\<close> is its \<^verbatim>\<open>DateTime\<close>.
\<close>

definition DATE_FORMAT_W_OUT_SECONDS :: jsstring where
  "DATE_FORMAT_W_OUT_SECONDS = str ''yyyy-MM-dd'T'HH:mm''"

definition DATE_FORMAT :: jsstring where
  "DATE_FORMAT = DATE_FORMAT_W_OUT_SECONDS @ str '':ss''"

definition parseDateTime ::
  "(jsstring \<Rightarrow> jsstring \<Rightarrow> js_error + 'dt) \<Rightarrow> ('dt \<Rightarrow> bool) \<Rightarrow> jsstring \<Rightarrow> js_error + 'dt" where
  "parseDateTime fromFormat isValid s =
     (case fromFormat s DATE_FORMAT of
        Inl e \<Rightarrow> Inl e
      | Inr res \<Rightarrow>
          if isValid res then Inr res
          else fromFormat s DATE_FORMAT_W_OUT_SECONDS)"

section \<open>The GraphQL requests\<close>

text \<open>
  The body of a request is a string, or the \<^verbatim>\<open>JSON.stringify\<close> of a value (the
  serialisation itself is not modelled).
\<close>

datatype body = Raw jsstring | Stringify jsval

record request =
  url :: jsstring
  headers :: "(jsstring \<times> jsstring) list"
  body :: body
  http_method :: jsstring

text \<open>
  The network, as far as a function of this module sees it: the requests sent so far, and
  the answer to a request, which is the exception of a failed \<^verbatim>\<open>fetch\<close> or \<^verbatim>\<open>res.json()\<close>, or
  the decoded response, read at the interface type \<open>'r\<close> the function casts it to.
\<close>

record 'r network =
  sent :: "request list"
  respond :: "request \<Rightarrow> js_error + 'r"

definition fetch_json :: "request \<Rightarrow> 'r network \<Rightarrow> (js_error + 'r) \<times> 'r network" where
  "fetch_json req net = (respond net req, net\<lparr>sent := sent net @ [req]\<rparr>)"

definition ENDPOINT :: jsstring where
  "ENDPOINT = str ''https://api-prod.omnivore.app/api/graphql''"

definition requestHeaders :: "jsstring \<Rightarrow> (jsstring \<times> jsstring) list" where
  "requestHeaders apiKey =
     [(str ''Content-Type'', str ''application/json''),
      (str ''authorization'', apiKey),
      (str ''X-OmnivoreClient'', str ''logseq-plugin'')]"

text \<open>
  A parameter with a default value: the default stands in for an omitted argument. The
  conversion of a number to a string in a template literal, \<^verbatim>\<open>Number::toString\<close>, is not
  modelled: the functions that use it take it as the parameter \<open>toString\<close>.
\<close>

definition default_arg :: "'a \<Rightarrow> 'a option \<Rightarrow> 'a" where
  "default_arg d x = (case x of None \<Rightarrow> d | Some v \<Rightarrow> v)"

subsection \<open>\<^verbatim>\<open>loadArticles\<close>\<close>

record PageInfo =
  hasNextPage :: bool

record SearchEdge =
  node :: Article

record SearchResult =
  edges :: "SearchEdge list"
  pageInfo :: PageInfo

record SearchData =
  search :: SearchResult

record SearchResponse =
  data :: SearchData

text \<open>The query document: the template literal, line by line, each after a line feed.\<close>

definition SEARCH_DOCUMENT :: jsstring where
  "SEARCH_DOCUMENT = concat (map (\<lambda>l. 0x0A # str l)
     [
      ''        query Search($after: String, $first: Int, $query: String, $includeContent: Boolean, $format: String) {'',
      ''          search(first: $first, after: $after, query: $query, includeContent: $includeContent, format: $format) {'',
      ''            ... on SearchSuccess {'',
      ''              edges {'',
      ''                node {'',
      ''                  title'',
      ''                  slug'',
      ''                  siteName'',
      ''                  originalArticleUrl'',
      ''                  url'',
      ''                  author'',
      ''                  updatedAt'',
      ''                  description'',
      ''                  savedAt'',
      ''                  pageType'',
      ''                  content'',
      ''                  publishedAt'',
      ''                  highlights {'',
      ''                    id'',
      ''                    quote'',
      ''                    annotation'',
      ''                    patch'',
      ''                    updatedAt'',
      ''                    labels {'',
      ''                      name'',
      ''                    }'',
      ''                    type'',
      ''                  }'',
      ''                  labels {'',
      ''                    name'',
      ''                  }'',
      ''                }'',
      ''              }'',
      ''              pageInfo {'',
      ''                hasNextPage'',
      ''              }'',
      ''            }'',
      ''            ... on SearchError {'',
      ''              errorCodes'',
      ''            }'',
      ''          }'',
      ''        }''
     ])"

definition search_query :: "jsstring \<Rightarrow> jsstring \<Rightarrow> jsstring" where
  "search_query updatedAt query =
     (if updatedAt \<noteq> [] then str ''updated:'' @ updatedAt else []) @
     str '' sort:saved-asc '' @ query"

definition loadArticles_request ::
  "(number \<Rightarrow> jsstring) \<Rightarrow> jsstring \<Rightarrow> number \<Rightarrow> number \<Rightarrow> jsstring \<Rightarrow> jsstring \<Rightarrow> bool \<Rightarrow>
   jsstring \<Rightarrow> request" where
  "loadArticles_request toString apiKey after first updatedAt query includeContent format =
     \<lparr>url = ENDPOINT,
      headers = requestHeaders apiKey,
      body = Stringify (JObj
        [(str ''query'', JStr SEARCH_DOCUMENT),
         (str ''variables'', JObj
            [(str ''after'', JStr (toString after)),
             (str ''first'', JNum first),
             (str ''query'', JStr (search_query updatedAt query)),
             (str ''includeContent'', JBool includeContent),
             (str ''format'', JStr format)])]),
      http_method = str ''POST''\<rparr>"

definition loadArticles ::
  "(number \<Rightarrow> jsstring) \<Rightarrow> jsstring \<Rightarrow> number option \<Rightarrow> number option \<Rightarrow> jsstring option \<Rightarrow>
   jsstring option \<Rightarrow> bool option \<Rightarrow> jsstring option \<Rightarrow> SearchResponse network \<Rightarrow>
   (js_error + Article list \<times> bool) \<times> SearchResponse network" where
  "loadArticles toString apiKey after first updatedAt query includeContent format net =
     (case fetch_json
             (loadArticles_request toString apiKey (default_arg (Fin 0) after)
                (default_arg (Fin 10) first)
                (default_arg [] updatedAt) (default_arg [] query)
                (default_arg False includeContent) (default_arg (str ''html'') format))
             net of
        (Inl e, net') \<Rightarrow> (Inl e, net')
      | (Inr jsonRes, net') \<Rightarrow>
          (Inr (map node (edges (search (data jsonRes))),
                hasNextPage (pageInfo (search (data jsonRes)))),
           net'))"

subsection \<open>\<^verbatim>\<open>loadDeletedArticleSlugs\<close>\<close>

datatype UpdateReason = CREATED | UPDATED | DELETED

record SlugNode =
  node_slug :: jsstring

record UpdateEdge =
  updateReason :: UpdateReason
  update_node :: SlugNode

record UpdatesSince =
  update_edges :: "UpdateEdge list"
  update_pageInfo :: PageInfo

record UpdatesSinceData =
  updatesSince :: UpdatesSince

record UpdatesSinceResponse =
  updates_data :: UpdatesSinceData

text \<open>
  The query document inside the body: in the template literal each of its lines follows
  a backslash and the letter n.
\<close>

definition UPDATES_SINCE_DOCUMENT :: jsstring where
  "UPDATES_SINCE_DOCUMENT = concat (map (\<lambda>l. [0x5C, 0x6E] @ str l)
     [
      ''    query UpdatesSince($after: String, $first: Int, $since: Date!) {'',
      ''      updatesSince(first: $first, after: $after, since: $since) {'',
      ''        ... on UpdatesSinceSuccess {'',
      ''          edges {'',
      ''       updateReason'',
      ''        node {'',
      ''              slug'',
      ''        }'',
      ''          }'',
      ''          pageInfo {'',
      ''            hasNextPage'',
      ''          }'',
      ''        }'',
      ''        ... on UpdatesSinceError {'',
      ''          errorCodes'',
      ''        }'',
      ''      }'',
      ''    }'',
      ''  ''
     ])"

definition loadDeletedArticleSlugs_request ::
  "(number \<Rightarrow> jsstring) \<Rightarrow> jsstring \<Rightarrow> number \<Rightarrow> number \<Rightarrow> jsstring \<Rightarrow> request" where
  \<open>loadDeletedArticleSlugs_request toString apiKey after first updatedAt =
     \<lparr>url = ENDPOINT,
      headers = requestHeaders apiKey,
      body = Raw
        (str ''{"query":"'' @ UPDATES_SINCE_DOCUMENT @
         str ''","variables":{"after":"'' @ toString after @
         str ''","first":'' @ toString first @
         str '', "since":"'' @ (if updatedAt \<noteq> [] then updatedAt else str ''2021-01-01'') @
         str ''"}}''),
      http_method = str ''POST''\<rparr>\<close>

definition loadDeletedArticleSlugs ::
  "(number \<Rightarrow> jsstring) \<Rightarrow> jsstring \<Rightarrow> number option \<Rightarrow> number option \<Rightarrow> jsstring option \<Rightarrow>
   UpdatesSinceResponse network \<Rightarrow>
   (js_error + jsstring list \<times> bool) \<times> UpdatesSinceResponse network" where
  "loadDeletedArticleSlugs toString apiKey after first updatedAt net =
     (case fetch_json
             (loadDeletedArticleSlugs_request toString apiKey (default_arg (Fin 0) after)
                (default_arg (Fin 10) first) (default_arg [] updatedAt))
             net of
        (Inl e, net') \<Rightarrow> (Inl e, net')
      | (Inr jsonRes, net') \<Rightarrow>
          (Inr (map (\<lambda>edge. node_slug (update_node edge))
                  (filter (\<lambda>edge. updateReason edge = DELETED)
                     (update_edges (updatesSince (updates_data jsonRes)))),
                hasNextPage (update_pageInfo (updatesSince (updates_data jsonRes)))),
           net'))"

section \<open>Numbers on the grid of doubles\<close>

text \<open>
  Every finite double is an integer multiple of \<open>pow2 (- 1074)\<close>, the smallest positive
  double. The predicates below say that of a number, and of every number inside a value,
  a token and a state of the parser.
\<close>

definition on_grid :: "rat \<Rightarrow> bool" where
  "on_grid r \<longleftrightarrow> r * pow2 1074 \<in> \<int>"

fun grid_number :: "number \<Rightarrow> bool" where
  "grid_number (Fin r) = on_grid r"
| "grid_number n = True"





section \<open>Properties\<close>

subsection \<open>The number value of a rational\<close>


lemma pow2_powi: "pow2 e = 2 powi e"
  by (simp add: pow2_def power_int_def field_simps)

lemma pow2_add: "pow2 (a + b) = pow2 a * pow2 b"
  by (simp add: pow2_powi power_int_add)

lemma pow2_int: "0 \<le> e \<Longrightarrow> pow2 e = of_int (2 ^ nat e)"
  by (simp add: pow2_def)

lemma on_grid_multiple: "- 1074 \<le> e \<Longrightarrow> on_grid (of_int n * pow2 e)"
proof -
  assume "- 1074 \<le> e"
  then have "pow2 (e + 1074) = of_int (2 ^ nat (e + 1074))"
    by (simp add: pow2_int)
  then have "of_int n * pow2 e * pow2 1074 = (of_int (n * 2 ^ nat (e + 1074)) :: rat)"
    by (simp only: pow2_add mult.assoc of_int_mult)
  then show ?thesis unfolding on_grid_def by (metis Ints_of_int)
qed

lemma on_grid_0: "on_grid 0"
  by (simp add: on_grid_def)


lemma on_grid_minus: "on_grid r \<Longrightarrow> on_grid (- r)"
  by (simp add: on_grid_def)


lemma grid_to_double: "grid_number (to_double x)"
  by (simp add: to_double_def on_grid_0 on_grid_multiple)

lemma grid_negate: "grid_number n \<Longrightarrow> grid_number (negate n)"
  by (cases n) (simp_all add: on_grid_minus on_grid_0)

lemma grid_round_signed: "grid_number (round_signed d)"
  by (simp add: round_signed_def grid_negate grid_to_double)








subsection \<open>The numbers \<^verbatim>\<open>JSON.parse\<close> produces\<close>














subsection \<open>Property reads and the result of \<^verbatim>\<open>JSON.parse\<close>\<close>

lemma str_length_code: "str ''length'' = [0x6C, 0x65, 0x6E, 0x67, 0x74, 0x68]"
  by (simp add: str_def)

lemma digits_small: "n < 10 \<Longrightarrow> digits n = [0x30 + n]"
  by (simp add: digits.simps)

lemma index_of_digit: "n < 10 \<Longrightarrow> index_of (digits n) = Some n"
  by (simp add: digits_small index_of_def is_digit_def int_of_digits_def)

lemma js_index_array:
  "n < 10 \<Longrightarrow> js_index (JArr xs) n = Inr (if n < length xs then xs ! n else JUndefined)"
  by (simp add: js_index_def index_of_digit) (simp add: digits_small str_length_code)

lemma js_get_truthy: "ToBoolean v \<Longrightarrow> \<exists>r. js_get v k = Inr r"
  by (cases v) simp_all

lemma js_index_truthy: "ToBoolean v \<Longrightarrow> \<exists>r. js_index v i = Inr r"
  by (simp add: js_index_def js_get_truthy)

lemma js_get_throws: "js_get v k = Inl e \<longleftrightarrow> (v = JUndefined \<or> v = JNull) \<and> e = TypeError"
  by (cases v) auto

lemma num_eq_four: "num_eq n (Fin 4) \<longleftrightarrow> n = Fin 4"
  by (cases n) (simp_all add: num_eq_def)

lemma strict_eq_four: "strict_eq v (JNum (Fin 4)) \<longleftrightarrow> v = JNum (Fin 4)"
  by (cases v) (simp_all add: num_eq_four)

lemma getHighlightPoint_guard:
  assumes "JSON_parse patch = Inr v" and "js_get v (str ''bbox'') = Inr bbox"
    and "\<not> ToBoolean bbox \<or> js_get bbox (str ''length'') \<noteq> Inr (JNum (Fin 4))"
  shows "getHighlightPoint patch = Inr \<lparr>left = JNum (Fin 0), top' = JNum (Fin 0)\<rparr>"
proof (cases "ToBoolean bbox")
  case False
  with assms show ?thesis by (simp add: getHighlightPoint_def)
next
  case True
  from js_get_truthy [OF True] obtain len where len: "js_get bbox (str ''length'') = Inr len"
    by blast
  with assms True have "len \<noteq> JNum (Fin 4)" by simp
  with assms True len show ?thesis by (simp add: getHighlightPoint_def strict_eq_four)
qed

lemma bbox_shapes_guard:
  assumes "b = JNull \<or> (\<exists>x. b = JBool x) \<or> (\<exists>n. b = JNum n) \<or> (\<exists>s. b = JStr s \<and> length s \<noteq> 4) \<or>
       (\<exists>xs. b = JArr xs \<and> length xs \<noteq> 4) \<or>
       (\<exists>m. b = JObj m \<and> map_of m (str ''length'') \<noteq> Some (JNum (Fin 4)))"
  shows "\<not> ToBoolean b \<or> js_get b (str ''length'') \<noteq> Inr (JNum (Fin 4))"
  using assms by (auto split: option.splits)

lemma getHighlightPoint_after_bbox:
  assumes "JSON_parse patch = Inr v" and "js_get v (str ''bbox'') = Inr bbox"
  shows "\<exists>p. getHighlightPoint patch = Inr p"
proof (cases "ToBoolean bbox")
  case False
  with assms show ?thesis by (simp add: getHighlightPoint_def)
next
  case True
  from js_get_truthy [OF True] obtain len where len: "js_get bbox (str ''length'') = Inr len" by blast
  from js_index_truthy [OF True] obtain l where l: "js_index bbox 0 = Inr l" by blast
  from js_index_truthy [OF True] obtain t where t: "js_index bbox 1 = Inr t" by blast
  from assms True len l t show ?thesis by (simp add: getHighlightPoint_def)
qed

lemma complete_done: "complete st v = SDone w \<Longrightarrow> w = v"
  by (cases "(st, v)" rule: complete.cases) auto

lemma start_value_done: "start_value st t = Some (SDone w) \<Longrightarrow> w \<noteq> JUndefined"
  by (cases t) (auto dest: complete_done)

lemma step_done: "step s t = Some (SDone w) \<Longrightarrow> w \<noteq> JUndefined"
  by (cases s) (auto split: token.splits if_splits dest: complete_done start_value_done)

lemma run_done: "run s ts = Some (SDone w) \<Longrightarrow> (s = SDone w \<and> ts = []) \<or> w \<noteq> JUndefined"
proof (induction ts arbitrary: s)
  case Nil
  then show ?case by simp
next
  case (Cons t ts)
  from Cons.prems obtain s' where s': "step s t = Some s'" and r: "run s' ts = Some (SDone w)"
    by (auto split: option.splits)
  from Cons.IH [OF r] show ?case
  proof
    assume "s' = SDone w \<and> ts = []"
    with s' show ?thesis by (auto dest: step_done)
  next
    assume "w \<noteq> JUndefined"
    then show ?thesis by simp
  qed
qed

lemma JSON_parse_defined: "JSON_parse text \<noteq> Inr JUndefined"
proof
  assume "JSON_parse text = Inr JUndefined"
  then obtain ts where "run (SValue []) ts = Some (SDone JUndefined)"
    by (auto simp: JSON_parse_def split: option.splits pstate.splits)
  from run_done [OF this] show False by simp
qed

lemma getHighlightPoint_throws:
  "(\<exists>e. getHighlightPoint patch = Inl e) \<longleftrightarrow>
     (\<exists>e. JSON_parse patch = Inl e) \<or> JSON_parse patch = Inr JNull"
proof (cases "JSON_parse patch")
  case (Inl e)
  then show ?thesis by (simp add: getHighlightPoint_def)
next
  case (Inr v)
  show ?thesis
  proof (cases "js_get v (str ''bbox'')")
    case (Inl e)
    then have "v = JUndefined \<or> v = JNull" by (simp add: js_get_throws)
    moreover have "v \<noteq> JUndefined" using Inr JSON_parse_defined [of patch] by auto
    ultimately show ?thesis using Inr Inl by (simp add: getHighlightPoint_def)
  next
    case bbox: (Inr bbox)
    from getHighlightPoint_after_bbox [OF Inr bbox] have "\<not> (\<exists>e. getHighlightPoint patch = Inl e)"
      by auto
    moreover from bbox have "v \<noteq> JNull" by auto
    ultimately show ?thesis using Inr by simp
  qed
qed

subsection \<open>\<^verbatim>\<open>getHighlightPoint\<close>\<close>

text \<open>
  Claim C1, as amended. The claim says that \<^verbatim>\<open>getHighlightPoint\<close> never throws and returns
  \<^verbatim>\<open>{left: 0, top: 0}\<close> also for malformed patch data. The code has no handler around
  \<^verbatim>\<open>JSON.parse\<close>, so what holds is: whenever the patch is the JSON text of a value that is not
  \<^verbatim>\<open>null\<close>, and the \<^verbatim>\<open>bbox\<close> of that value is falsy or has a \<^verbatim>\<open>length\<close> other than 4, the result
  is \<^verbatim>\<open>{left: 0, top: 0}\<close>. That covers an object without a \<^verbatim>\<open>bbox\<close> member; a \<^verbatim>\<open>bbox\<close> that is
  \<^verbatim>\<open>null\<close>, a boolean, a number, a string or an array of a length other than 4, or an object
  whose \<^verbatim>\<open>length\<close> member is not 4; and a parsed value that is not an object. A patch that is
  not JSON text throws the error of \<^verbatim>\<open>JSON.parse\<close>, the patch \<^verbatim>\<open>null\<close> throws a \<^verbatim>\<open>TypeError\<close>, and
  nothing else throws.
\<close>

theorem getHighlightPoint_default:
  "(JSON_parse patch = Inr v \<and> js_get v (str ''bbox'') = Inr bbox \<and>
    (\<not> ToBoolean bbox \<or> js_get bbox (str ''length'') \<noteq> Inr (JNum (Fin 4))) \<longrightarrow>
      getHighlightPoint patch = Inr \<lparr>left = JNum (Fin 0), top' = JNum (Fin 0)\<rparr>) \<and>
   (JSON_parse patch = Inr (JObj kvs) \<and> map_of kvs (str ''bbox'') = None \<longrightarrow>
      getHighlightPoint patch = Inr \<lparr>left = JNum (Fin 0), top' = JNum (Fin 0)\<rparr>) \<and>
   (JSON_parse patch = Inr (JObj kvs) \<and> map_of kvs (str ''bbox'') = Some b \<and>
    (b = JNull \<or> (\<exists>x. b = JBool x) \<or> (\<exists>n. b = JNum n) \<or> (\<exists>s. b = JStr s \<and> length s \<noteq> 4) \<or>
     (\<exists>xs. b = JArr xs \<and> length xs \<noteq> 4) \<or>
     (\<exists>m. b = JObj m \<and> map_of m (str ''length'') \<noteq> Some (JNum (Fin 4)))) \<longrightarrow>
      getHighlightPoint patch = Inr \<lparr>left = JNum (Fin 0), top' = JNum (Fin 0)\<rparr>) \<and>
   (JSON_parse patch = Inr v \<and> v \<noteq> JNull \<and> (\<forall>kvs. v \<noteq> JObj kvs) \<longrightarrow>
      getHighlightPoint patch = Inr \<lparr>left = JNum (Fin 0), top' = JNum (Fin 0)\<rparr>) \<and>
   (JSON_parse patch = Inl e \<longrightarrow> getHighlightPoint patch = Inl e) \<and>
   (JSON_parse patch = Inr JNull \<longrightarrow> getHighlightPoint patch = Inl TypeError) \<and>
   ((\<exists>e. getHighlightPoint patch = Inl e) \<longleftrightarrow>
      (\<exists>e. JSON_parse patch = Inl e) \<or> JSON_parse patch = Inr JNull)"
proof (intro conjI impI)
  assume "JSON_parse patch = Inr v \<and> js_get v (str ''bbox'') = Inr bbox \<and>
    (\<not> ToBoolean bbox \<or> js_get bbox (str ''length'') \<noteq> Inr (JNum (Fin 4)))"
  then show "getHighlightPoint patch = Inr \<lparr>left = JNum (Fin 0), top' = JNum (Fin 0)\<rparr>"
    by (intro getHighlightPoint_guard [of patch v bbox]) simp_all
next
  assume "JSON_parse patch = Inr (JObj kvs) \<and> map_of kvs (str ''bbox'') = None"
  then show "getHighlightPoint patch = Inr \<lparr>left = JNum (Fin 0), top' = JNum (Fin 0)\<rparr>"
    by (simp add: getHighlightPoint_def)
next
  assume a: "JSON_parse patch = Inr (JObj kvs) \<and> map_of kvs (str ''bbox'') = Some b \<and>
    (b = JNull \<or> (\<exists>x. b = JBool x) \<or> (\<exists>n. b = JNum n) \<or> (\<exists>s. b = JStr s \<and> length s \<noteq> 4) \<or>
     (\<exists>xs. b = JArr xs \<and> length xs \<noteq> 4) \<or>
     (\<exists>m. b = JObj m \<and> map_of m (str ''length'') \<noteq> Some (JNum (Fin 4))))"
  then have "js_get (JObj kvs) (str ''bbox'') = Inr b" by simp
  moreover from a have "\<not> ToBoolean b \<or> js_get b (str ''length'') \<noteq> Inr (JNum (Fin 4))"
    by (intro bbox_shapes_guard) blast
  ultimately show "getHighlightPoint patch = Inr \<lparr>left = JNum (Fin 0), top' = JNum (Fin 0)\<rparr>"
    using a by (intro getHighlightPoint_guard [of patch "JObj kvs" b]) simp_all
next
  assume a: "JSON_parse patch = Inr v \<and> v \<noteq> JNull \<and> (\<forall>kvs. v \<noteq> JObj kvs)"
  with JSON_parse_defined [of patch] have "v \<noteq> JUndefined" by auto
  with a have "js_get v (str ''bbox'') = Inr JUndefined"
    by (cases v) (simp_all add: str_def index_of_def is_digit_def)
  with a show "getHighlightPoint patch = Inr \<lparr>left = JNum (Fin 0), top' = JNum (Fin 0)\<rparr>"
    by (simp add: getHighlightPoint_def)
next
  assume "JSON_parse patch = Inl e"
  then show "getHighlightPoint patch = Inl e"
    by (simp add: getHighlightPoint_def)
next
  assume "JSON_parse patch = Inr JNull"
  then show "getHighlightPoint patch = Inl TypeError"
    by (simp add: getHighlightPoint_def)
next
  show "(\<exists>e. getHighlightPoint patch = Inl e) \<longleftrightarrow>
      (\<exists>e. JSON_parse patch = Inl e) \<or> JSON_parse patch = Inr JNull"
    by (rule getHighlightPoint_throws)
qed

text \<open>
  The amended statement at ten patches: an object without \<^verbatim>\<open>bbox\<close>; a \<^verbatim>\<open>bbox\<close> of three
  numbers, \<^verbatim>\<open>null\<close>, \<^verbatim>\<open>false\<close>, a number, a string of three characters and an empty object;
  an array; a truncated text; and \<^verbatim>\<open>null\<close>.
\<close>

theorem getHighlightPoint_default_witness:
  \<open>getHighlightPoint (str ''{"id":"h1"}'') = Inr \<lparr>left = JNum (Fin 0), top' = JNum (Fin 0)\<rparr> \<and>
   getHighlightPoint (str ''{"bbox":[1,2,3]}'') = Inr \<lparr>left = JNum (Fin 0), top' = JNum (Fin 0)\<rparr> \<and>
   getHighlightPoint (str ''{"bbox":null}'') = Inr \<lparr>left = JNum (Fin 0), top' = JNum (Fin 0)\<rparr> \<and>
   getHighlightPoint (str ''{"bbox":false}'') = Inr \<lparr>left = JNum (Fin 0), top' = JNum (Fin 0)\<rparr> \<and>
   getHighlightPoint (str ''{"bbox":7}'') = Inr \<lparr>left = JNum (Fin 0), top' = JNum (Fin 0)\<rparr> \<and>
   getHighlightPoint (str ''{"bbox":"abc"}'') = Inr \<lparr>left = JNum (Fin 0), top' = JNum (Fin 0)\<rparr> \<and>
   getHighlightPoint (str ''{"bbox":{}}'') = Inr \<lparr>left = JNum (Fin 0), top' = JNum (Fin 0)\<rparr> \<and>
   getHighlightPoint (str ''[1,2,3,4]'') = Inr \<lparr>left = JNum (Fin 0), top' = JNum (Fin 0)\<rparr> \<and>
   getHighlightPoint (str ''{"bbox":'') = Inl SyntaxError \<and>
   getHighlightPoint (str ''null'') = Inl TypeError\<close>
proof -
  have p1: \<open>JSON_parse (str ''{"id":"h1"}'') = Inr (JObj [(str ''id'', JStr (str ''h1''))])\<close>
    by code_simp
  have m1: "map_of [(str ''id'', JStr (str ''h1''))] (str ''bbox'') = None"
    by (simp add: str_def)
  have p2: \<open>JSON_parse (str ''{"bbox":[1,2,3]}'') =
      Inr (JObj [(str ''bbox'', JArr [JNum (Fin 1), JNum (Fin 2), JNum (Fin 3)])])\<close>
    by code_simp
  have p3: \<open>JSON_parse (str ''{"bbox":null}'') = Inr (JObj [(str ''bbox'', JNull)])\<close>
    by code_simp
  have p4: \<open>JSON_parse (str ''{"bbox":false}'') = Inr (JObj [(str ''bbox'', JBool False)])\<close>
    by code_simp
  have p5: \<open>JSON_parse (str ''{"bbox":7}'') = Inr (JObj [(str ''bbox'', JNum (Fin 7))])\<close>
    by code_simp
  have p6: \<open>JSON_parse (str ''{"bbox":"abc"}'') = Inr (JObj [(str ''bbox'', JStr (str ''abc''))])\<close>
    by code_simp
  have p7: \<open>JSON_parse (str ''{"bbox":{}}'') = Inr (JObj [(str ''bbox'', JObj [])])\<close>
    by code_simp
  have p8: "JSON_parse (str ''[1,2,3,4]'') = Inr (JArr [JNum (Fin 1), JNum (Fin 2), JNum (Fin 3), JNum (Fin 4)])"
    by code_simp
  have p9: \<open>JSON_parse (str ''{"bbox":'') = Inl SyntaxError\<close>
    by code_simp
  have p10: "JSON_parse (str ''null'') = Inr JNull"
    by code_simp
  have l3: "length (str ''abc'') \<noteq> 4" by (simp add: str_def)
  note T = getHighlightPoint_default
  from T [of \<open>str ''{"id":"h1"}''\<close> _ _ "[(str ''id'', JStr (str ''h1''))]"] p1 m1
  have 1: \<open>getHighlightPoint (str ''{"id":"h1"}'') = Inr \<lparr>left = JNum (Fin 0), top' = JNum (Fin 0)\<rparr>\<close>
    by simp
  from T [of \<open>str ''{"bbox":[1,2,3]}''\<close> _ _ "[(str ''bbox'', JArr [JNum (Fin 1), JNum (Fin 2), JNum (Fin 3)])]"
      "JArr [JNum (Fin 1), JNum (Fin 2), JNum (Fin 3)]"] p2
  have 2: \<open>getHighlightPoint (str ''{"bbox":[1,2,3]}'') = Inr \<lparr>left = JNum (Fin 0), top' = JNum (Fin 0)\<rparr>\<close>
    by simp
  from T [of \<open>str ''{"bbox":null}''\<close> _ _ "[(str ''bbox'', JNull)]" JNull] p3
  have 3: \<open>getHighlightPoint (str ''{"bbox":null}'') = Inr \<lparr>left = JNum (Fin 0), top' = JNum (Fin 0)\<rparr>\<close>
    by simp
  from T [of \<open>str ''{"bbox":false}''\<close> _ _ "[(str ''bbox'', JBool False)]" "JBool False"] p4
  have 4: \<open>getHighlightPoint (str ''{"bbox":false}'') = Inr \<lparr>left = JNum (Fin 0), top' = JNum (Fin 0)\<rparr>\<close>
    by auto
  from T [of \<open>str ''{"bbox":7}''\<close> _ _ "[(str ''bbox'', JNum (Fin 7))]" "JNum (Fin 7)"] p5
  have 5: \<open>getHighlightPoint (str ''{"bbox":7}'') = Inr \<lparr>left = JNum (Fin 0), top' = JNum (Fin 0)\<rparr>\<close>
    by simp
  from T [of \<open>str ''{"bbox":"abc"}''\<close> _ _ "[(str ''bbox'', JStr (str ''abc''))]" "JStr (str ''abc'')"] p6 l3
  have 6: \<open>getHighlightPoint (str ''{"bbox":"abc"}'') = Inr \<lparr>left = JNum (Fin 0), top' = JNum (Fin 0)\<rparr>\<close>
    by simp
  from T [of \<open>str ''{"bbox":{}}''\<close> _ _ "[(str ''bbox'', JObj [])]" "JObj []"] p7
  have 7: \<open>getHighlightPoint (str ''{"bbox":{}}'') = Inr \<lparr>left = JNum (Fin 0), top' = JNum (Fin 0)\<rparr>\<close>
    by simp
  from T [of "str ''[1,2,3,4]''" "JArr [JNum (Fin 1), JNum (Fin 2), JNum (Fin 3), JNum (Fin 4)]"] p8
  have 8: "getHighlightPoint (str ''[1,2,3,4]'') = Inr \<lparr>left = JNum (Fin 0), top' = JNum (Fin 0)\<rparr>"
    by simp
  from T [of \<open>str ''{"bbox":''\<close> _ _ _ _ SyntaxError] p9
  have 9: \<open>getHighlightPoint (str ''{"bbox":'') = Inl SyntaxError\<close>
    by simp
  from T [of "str ''null''"] p10
  have 10: "getHighlightPoint (str ''null'') = Inl TypeError"
    by simp
  from 1 2 3 4 5 6 7 8 9 10 show ?thesis by simp
qed

text \<open>
  The claim as it was stated fails: a truncated JSON text is malformed patch data, and
  \<^verbatim>\<open>getHighlightPoint\<close> throws the \<^verbatim>\<open>SyntaxError\<close> of \<^verbatim>\<open>JSON.parse\<close> instead of returning the
  zero point; on the text \<^verbatim>\<open>null\<close> the destructuring throws a \<^verbatim>\<open>TypeError\<close>.
\<close>

theorem getHighlightPoint_malformed_counterexample:
  \<open>getHighlightPoint (str ''{"bbox":[1,2,3'') = Inl SyntaxError \<and>
   getHighlightPoint (str ''{"bbox":[1,2,3'') \<noteq> Inr \<lparr>left = JNum (Fin 0), top' = JNum (Fin 0)\<rparr> \<and>
   getHighlightPoint (str ''null'') = Inl TypeError\<close>
proof -
  have \<open>getHighlightPoint (str ''{"bbox":[1,2,3'') = Inl SyntaxError\<close>
    by code_simp
  moreover have "getHighlightPoint (str ''null'') = Inl TypeError"
    by code_simp
  ultimately show ?thesis by simp
qed

text \<open>
  Claim C4. When the patch parses to an object whose \<^verbatim>\<open>bbox\<close> member is an array of exactly
  four numbers \<^verbatim>\<open>[x, y, w, h]\<close>, \<^verbatim>\<open>getHighlightPoint\<close> returns \<^verbatim>\<open>{left: x, top: y}\<close>.
\<close>

theorem getHighlightPoint_bbox:
  assumes "JSON_parse patch = Inr (JObj kvs)"
    and "map_of kvs (str ''bbox'') = Some (JArr [JNum x, JNum y, JNum w, JNum h])"
  shows "getHighlightPoint patch = Inr \<lparr>left = JNum x, top' = JNum y\<rparr>"
  using assms by (simp add: getHighlightPoint_def js_index_array num_eq_def)

text \<open>A bounding box with a fractional coordinate.\<close>

theorem getHighlightPoint_bbox_witness:
  \<open>JSON_parse (str ''{"bbox":[10.5,20,300,40]}'') =
     Inr (JObj [(str ''bbox'', JArr [JNum (Fin (21 / 2)), JNum (Fin 20), JNum (Fin 300), JNum (Fin 40)])]) \<and>
   map_of [(str ''bbox'', JArr [JNum (Fin (21 / 2)), JNum (Fin 20), JNum (Fin 300), JNum (Fin 40)])] (str ''bbox'') =
     Some (JArr [JNum (Fin (21 / 2)), JNum (Fin 20), JNum (Fin 300), JNum (Fin 40)]) \<and>
   getHighlightPoint (str ''{"bbox":[10.5,20,300,40]}'') =
     Inr \<lparr>left = JNum (Fin (21 / 2)), top' = JNum (Fin 20)\<rparr>\<close>
proof -
  have p: \<open>JSON_parse (str ''{"bbox":[10.5,20,300,40]}'') =
     Inr (JObj [(str ''bbox'', JArr [JNum (Fin (21 / 2)), JNum (Fin 20), JNum (Fin 300), JNum (Fin 40)])])\<close>
    by code_simp
  have m: "map_of [(str ''bbox'', JArr [JNum (Fin (21 / 2)), JNum (Fin 20), JNum (Fin 300), JNum (Fin 40)])] (str ''bbox'') =
     Some (JArr [JNum (Fin (21 / 2)), JNum (Fin 20), JNum (Fin 300), JNum (Fin 40)])"
    by simp
  from p m getHighlightPoint_bbox [OF p m] show ?thesis by simp
qed

subsection \<open>\<^verbatim>\<open>getHighlightLocation\<close>\<close>




subsection \<open>\<^verbatim>\<open>compareHighlightsInFile\<close>\<close>





subsection \<open>Text utilities\<close>

lemma replace_global_concat:
  "replace_global p rep s = concat (map (\<lambda>c. if c = p then rep else [c]) s)"
  by (induction s) simp_all

lemma replace_global_absent: "p \<notin> set s \<Longrightarrow> replace_global p rep s = s"
  by (induction s) simp_all

text \<open>
  Claim C9. \<^verbatim>\<open>escapeQuotationMarks\<close> replaces every double quote by a backslash and a double
  quote and keeps every other character; a string without a double quote is returned as
  it is.
\<close>

theorem escapeQuotationMarks_replaces:
  "escapeQuotationMarks text = concat (map (\<lambda>c. if c = 0x22 then [0x5C, 0x22] else [c]) text) \<and>
   (0x22 \<notin> set text \<longrightarrow> escapeQuotationMarks text = text)"
proof (intro conjI impI)
  show "escapeQuotationMarks text = concat (map (\<lambda>c. if c = 0x22 then [0x5C, 0x22] else [c]) text)"
    by (simp add: escapeQuotationMarks_def replace_global_concat)
next
  assume "0x22 \<notin> set text"
  then show "escapeQuotationMarks text = text"
    by (simp add: escapeQuotationMarks_def replace_global_absent)
qed

text \<open>The example of the specification, and a string without a quotation mark.\<close>

theorem escapeQuotationMarks_replaces_witness:
  \<open>escapeQuotationMarks (str ''say "hi"'') = str ''say '' @ [0x5C] @ str ''"hi'' @ [0x5C] @ str ''"'' \<and>
   escapeQuotationMarks (str ''plain text'') = str ''plain text''\<close>
proof -
  have "0x22 \<notin> set (str ''plain text'')"
    by (simp add: str_def)
  with escapeQuotationMarks_replaces [of "str ''plain text''"]
  have "escapeQuotationMarks (str ''plain text'') = str ''plain text''"
    by blast
  moreover from escapeQuotationMarks_replaces [of \<open>str ''say "hi"''\<close>]
  have \<open>escapeQuotationMarks (str ''say "hi"'') = str ''say '' @ [0x5C] @ str ''"hi'' @ [0x5C] @ str ''"''\<close>
    by (simp add: str_def)
  ultimately show ?thesis by simp
qed

text \<open>
  Claim C7. When the escaping library throws, \<^verbatim>\<open>markdownEscape\<close> returns the text it was
  given; otherwise it returns what the library returned; it never throws.
\<close>

theorem markdownEscape_catches:
  "(escape text = Inl e \<longrightarrow> fst (markdownEscape escape text con) = Inr text) \<and>
   (escape text = Inr escaped \<longrightarrow> fst (markdownEscape escape text con) = Inr escaped) \<and>
   (\<exists>r. fst (markdownEscape escape text con) = Inr r)"
  by (cases "escape text") (simp_all add: markdownEscape_def)

text \<open>A library that throws on every text, and one that puts a backslash in front.\<close>

theorem markdownEscape_catches_witness:
  "fst (markdownEscape (\<lambda>t. Inl TypeError) (str ''a*b'') []) = Inr (str ''a*b'') \<and>
   fst (markdownEscape (\<lambda>t. Inr (0x5C # t)) (str ''*'') []) = Inr (0x5C # str ''*'')"
  using markdownEscape_catches [of "\<lambda>t. Inl TypeError" "str ''a*b''" TypeError "[]"]
    markdownEscape_catches [of "\<lambda>t. Inr (0x5C # t)" "str ''*''" _ "[]" "0x5C # str ''*''"]
  by simp

text \<open>
  Claim C6. \<^verbatim>\<open>parseDateTime\<close> first parses with the format \<^verbatim>\<open>yyyy-MM-dd'T'HH:mm:ss\<close> and
  returns that result when it is valid; otherwise it returns the result of parsing with
  \<^verbatim>\<open>yyyy-MM-dd'T'HH:mm\<close>; when that one is invalid too, the result is that invalid object,
  and as long as \<^verbatim>\<open>DateTime.fromFormat\<close> returns, \<^verbatim>\<open>parseDateTime\<close> returns.
\<close>

theorem parseDateTime_fallback:
  "DATE_FORMAT = str ''yyyy-MM-dd'T'HH:mm:ss'' \<and>
   DATE_FORMAT_W_OUT_SECONDS = str ''yyyy-MM-dd'T'HH:mm'' \<and>
   (fromFormat s DATE_FORMAT = Inr res \<and> isValid res \<longrightarrow>
      parseDateTime fromFormat isValid s = Inr res) \<and>
   (fromFormat s DATE_FORMAT = Inr res \<and> \<not> isValid res \<longrightarrow>
      parseDateTime fromFormat isValid s = fromFormat s DATE_FORMAT_W_OUT_SECONDS) \<and>
   (fromFormat s DATE_FORMAT = Inr res \<and> \<not> isValid res \<and>
    fromFormat s DATE_FORMAT_W_OUT_SECONDS = Inr res' \<and> \<not> isValid res' \<longrightarrow>
      parseDateTime fromFormat isValid s = Inr res') \<and>
   ((\<forall>fmt. \<exists>r. fromFormat s fmt = Inr r) \<longrightarrow>
      (\<exists>r. parseDateTime fromFormat isValid s = Inr r))"
proof -
  have "(\<forall>fmt. \<exists>r. fromFormat s fmt = Inr r) \<longrightarrow>
      (\<exists>r. parseDateTime fromFormat isValid s = Inr r)"
  proof
    assume a: "\<forall>fmt. \<exists>r. fromFormat s fmt = Inr r"
    then obtain r1 r2 where "fromFormat s DATE_FORMAT = Inr r1"
      "fromFormat s DATE_FORMAT_W_OUT_SECONDS = Inr r2" by metis
    then show "\<exists>r. parseDateTime fromFormat isValid s = Inr r"
      by (simp add: parseDateTime_def)
  qed
  then show ?thesis
    by (simp add: parseDateTime_def DATE_FORMAT_def DATE_FORMAT_W_OUT_SECONDS_def str_def)
qed

text \<open>
  The three examples of the specification, for a \<^verbatim>\<open>fromFormat\<close> that accepts by the length
  of the text.
\<close>

theorem parseDateTime_fallback_witness:
  "parseDateTime
     (\<lambda>s fmt. Inr (if fmt = DATE_FORMAT \<and> length s = 19 \<or> fmt = DATE_FORMAT_W_OUT_SECONDS \<and> length s = 16
                    then Some s else None))
     (\<lambda>d. d \<noteq> None) (str ''2023-01-05T10:30:00'') = Inr (Some (str ''2023-01-05T10:30:00'')) \<and>
   parseDateTime
     (\<lambda>s fmt. Inr (if fmt = DATE_FORMAT \<and> length s = 19 \<or> fmt = DATE_FORMAT_W_OUT_SECONDS \<and> length s = 16
                    then Some s else None))
     (\<lambda>d. d \<noteq> None) (str ''2023-01-05T10:30'') = Inr (Some (str ''2023-01-05T10:30'')) \<and>
   parseDateTime
     (\<lambda>s fmt. Inr (if fmt = DATE_FORMAT \<and> length s = 19 \<or> fmt = DATE_FORMAT_W_OUT_SECONDS \<and> length s = 16
                    then Some s else None))
     (\<lambda>d. d \<noteq> None) (str ''not-a-date'') = Inr None"
proof -
  let ?ff = "\<lambda>(s::jsstring) fmt. Inr (if fmt = DATE_FORMAT \<and> length s = 19 \<or> fmt = DATE_FORMAT_W_OUT_SECONDS \<and> length s = 16
                    then Some s else None) :: js_error + jsstring option"
  let ?ok = "\<lambda>d::jsstring option. d \<noteq> None"
  have ne: "DATE_FORMAT \<noteq> DATE_FORMAT_W_OUT_SECONDS"
    by (simp add: DATE_FORMAT_def str_def)
  have 1: "?ff (str ''2023-01-05T10:30:00'') DATE_FORMAT = Inr (Some (str ''2023-01-05T10:30:00''))"
    by (simp add: str_def)
  have 2: "?ff (str ''2023-01-05T10:30'') DATE_FORMAT = Inr None"
    "?ff (str ''2023-01-05T10:30'') DATE_FORMAT_W_OUT_SECONDS = Inr (Some (str ''2023-01-05T10:30''))"
    using ne by (simp_all add: str_def)
  have 3: "?ff (str ''not-a-date'') DATE_FORMAT = Inr None"
    "?ff (str ''not-a-date'') DATE_FORMAT_W_OUT_SECONDS = Inr None"
    by (simp_all add: str_def)
  from parseDateTime_fallback [of ?ff "str ''2023-01-05T10:30:00''" "Some (str ''2023-01-05T10:30:00'')" ?ok] 1
  have a: "parseDateTime ?ff ?ok (str ''2023-01-05T10:30:00'') = Inr (Some (str ''2023-01-05T10:30:00''))"
    by simp
  from parseDateTime_fallback [of ?ff "str ''2023-01-05T10:30''" None ?ok] 2
  have b: "parseDateTime ?ff ?ok (str ''2023-01-05T10:30'') = Inr (Some (str ''2023-01-05T10:30''))"
    by simp
  from parseDateTime_fallback [of ?ff "str ''not-a-date''" None ?ok None] 3
  have c: "parseDateTime ?ff ?ok (str ''not-a-date'') = Inr None"
    by simp
  from a b c show ?thesis by simp
qed

subsection \<open>The requests and their results\<close>

lemma loadArticles_sent:
  "sent (snd (loadArticles toString apiKey after first updatedAt query includeContent format net)) =
     sent net @ [loadArticles_request toString apiKey (default_arg (Fin 0) after) (default_arg (Fin 10) first)
                (default_arg [] updatedAt) (default_arg [] query)
                (default_arg False includeContent) (default_arg (str ''html'') format)]"
  by (simp add: loadArticles_def fetch_json_def split: sum.splits)

lemma variables_keys:
  "str ''query'' \<noteq> str ''after''" "str ''query'' \<noteq> str ''first''"
  "str ''first'' \<noteq> str ''after''"
  by (simp_all add: str_def)

lemma loadDeletedArticleSlugs_sent:
  "sent (snd (loadDeletedArticleSlugs toString apiKey after first updatedAt net)) =
     sent net @ [loadDeletedArticleSlugs_request toString apiKey (default_arg (Fin 0) after) (default_arg (Fin 10) first)
                (default_arg [] updatedAt)]"
  by (simp add: loadDeletedArticleSlugs_def fetch_json_def split: sum.splits)

lemma loadDeletedArticleSlugs_result:
  "fst (loadDeletedArticleSlugs toString apiKey after first updatedAt net) =
     (case respond net (loadDeletedArticleSlugs_request toString apiKey (default_arg (Fin 0) after) (default_arg (Fin 10) first)
                (default_arg [] updatedAt)) of
        Inl e \<Rightarrow> Inl e
      | Inr jsonRes \<Rightarrow>
          Inr (map (\<lambda>edge. node_slug (update_node edge))
                 (filter (\<lambda>edge. updateReason edge = DELETED)
                    (update_edges (updatesSince (updates_data jsonRes)))),
               hasNextPage (update_pageInfo (updatesSince (updates_data jsonRes)))))"
  by (simp add: loadDeletedArticleSlugs_def fetch_json_def split: sum.splits)

lemma loadArticles_result:
  "fst (loadArticles toString apiKey after first updatedAt query includeContent format net) =
     (case respond net (loadArticles_request toString apiKey (default_arg (Fin 0) after) (default_arg (Fin 10) first)
                (default_arg [] updatedAt) (default_arg [] query)
                (default_arg False includeContent) (default_arg (str ''html'') format)) of
        Inl e \<Rightarrow> Inl e
      | Inr jsonRes \<Rightarrow>
          Inr (map node (edges (search (data jsonRes))),
               hasNextPage (pageInfo (search (data jsonRes)))))"
  by (simp add: loadArticles_def fetch_json_def split: sum.splits)

lemma map_filter_comprehension: "map f (filter P xs) = [f x. x \<leftarrow> xs, P x]"
  by (induction xs) simp_all

text \<open>
  Claim C8. \<^verbatim>\<open>loadArticles\<close> sends one request; the \<^verbatim>\<open>query\<close> variable of its body is the
  filter \<^verbatim>\<open>updated:\<close> followed by the caller's \<^verbatim>\<open>updatedAt\<close> (there exactly when
  \<^verbatim>\<open>updatedAt\<close> is not empty), then the fixed clause \<^verbatim>\<open>sort:saved-asc\<close> between two spaces, then
  the caller's query; and when the caller omits \<^verbatim>\<open>first\<close>, the \<^verbatim>\<open>first\<close> variable is 10.
\<close>

theorem loadArticles_query:
  "\<exists>req document variables.
     sent (snd (loadArticles toString apiKey after first updatedAt query includeContent format net)) =
       sent net @ [req] \<and>
     body req = Stringify (JObj [(str ''query'', document), (str ''variables'', JObj variables)]) \<and>
     map_of variables (str ''query'') =
       Some (JStr ((if default_arg [] updatedAt \<noteq> [] then str ''updated:'' @ default_arg [] updatedAt else []) @
                   str '' sort:saved-asc '' @ default_arg [] query)) \<and>
     (first = None \<longrightarrow> map_of variables (str ''first'') = Some (JNum (Fin 10)))"
  unfolding loadArticles_sent
  by (simp add: loadArticles_request_def search_query_def variables_keys default_arg_def)

text \<open>A call with a date and a query, on a network that is down.\<close>

theorem loadArticles_query_witness:
  "\<exists>req document variables.
     sent (snd (loadArticles (\<lambda>n. case n of Fin r \<Rightarrow> digits (nat \<lfloor>r\<rfloor>) | _ \<Rightarrow> []) (str ''key'') None None (Some (str ''2023-01-05'')) (Some (str ''in:inbox''))
                  None None
                  (\<lparr>sent = [], respond = \<lambda>req. Inl (Error (str ''offline''))\<rparr> :: SearchResponse network))) =
       [req] \<and>
     body req = Stringify (JObj [(str ''query'', document), (str ''variables'', JObj variables)]) \<and>
     map_of variables (str ''query'') = Some (JStr (str ''updated:2023-01-05 sort:saved-asc in:inbox'')) \<and>
     map_of variables (str ''first'') = Some (JNum (Fin 10))"
proof -
  from loadArticles_query
    [of "(\<lambda>n. case n of Fin r \<Rightarrow> digits (nat \<lfloor>r\<rfloor>) | _ \<Rightarrow> [])" "str ''key''" None None "Some (str ''2023-01-05'')" "Some (str ''in:inbox'')" None None
        "\<lparr>sent = [], respond = \<lambda>req. Inl (Error (str ''offline''))\<rparr>"]
  obtain req document variables where
    "sent (snd (loadArticles (\<lambda>n. case n of Fin r \<Rightarrow> digits (nat \<lfloor>r\<rfloor>) | _ \<Rightarrow> []) (str ''key'') None None (Some (str ''2023-01-05'')) (Some (str ''in:inbox''))
                  None None
                  (\<lparr>sent = [], respond = \<lambda>req. Inl (Error (str ''offline''))\<rparr> :: SearchResponse network))) =
       [req]"
    "body req = Stringify (JObj [(str ''query'', document), (str ''variables'', JObj variables)])"
    "map_of variables (str ''query'') =
       Some (JStr ((if default_arg [] (Some (str ''2023-01-05'')) \<noteq> []
                    then str ''updated:'' @ default_arg [] (Some (str ''2023-01-05'')) else []) @
                   str '' sort:saved-asc '' @ default_arg [] (Some (str ''in:inbox''))))"
    "map_of variables (str ''first'') = Some (JNum (Fin 10))"
    by auto
  moreover have
    "(if default_arg [] (Some (str ''2023-01-05'')) \<noteq> []
      then str ''updated:'' @ default_arg [] (Some (str ''2023-01-05'')) else []) @
     str '' sort:saved-asc '' @ default_arg [] (Some (str ''in:inbox'')) =
     str ''updated:2023-01-05 sort:saved-asc in:inbox''"
    by (simp add: default_arg_def str_def)
  ultimately show ?thesis by auto
qed

text \<open>
  Claim C5. \<^verbatim>\<open>loadDeletedArticleSlugs\<close> sends one request; for every response to it, the
  result is the list of the slugs of the edges whose \<^verbatim>\<open>updateReason\<close> is \<^verbatim>\<open>DELETED\<close> (an edge
  with another reason gives nothing), paired with the \<^verbatim>\<open>hasNextPage\<close> flag of the response;
  and when the caller passes no \<^verbatim>\<open>updatedAt\<close>, or the empty string, the body of the request
  ends with the \<^verbatim>\<open>since\<close> parameter \<^verbatim>\<open>2021-01-01\<close>.
\<close>

theorem loadDeletedArticleSlugs_deleted:
  \<open>\<exists>req.
     sent (snd (loadDeletedArticleSlugs toString apiKey after first updatedAt net)) = sent net @ [req] \<and>
     (\<forall>jsonRes. respond net req = Inr jsonRes \<longrightarrow>
        fst (loadDeletedArticleSlugs toString apiKey after first updatedAt net) =
          Inr ([node_slug (update_node edge).
                  edge \<leftarrow> update_edges (updatesSince (updates_data jsonRes)),
                  updateReason edge = DELETED],
               hasNextPage (update_pageInfo (updatesSince (updates_data jsonRes))))) \<and>
     (updatedAt = None \<or> updatedAt = Some [] \<longrightarrow>
        (\<exists>prefix. body req = Raw (prefix @ str ''"since":"2021-01-01"}}'')))\<close>
proof (intro exI conjI allI impI)
  show "sent (snd (loadDeletedArticleSlugs toString apiKey after first updatedAt net)) =
     sent net @ [loadDeletedArticleSlugs_request toString apiKey (default_arg (Fin 0) after) (default_arg (Fin 10) first)
                (default_arg [] updatedAt)]"
    by (rule loadDeletedArticleSlugs_sent)
next
  fix jsonRes
  assume "respond net (loadDeletedArticleSlugs_request toString apiKey (default_arg (Fin 0) after) (default_arg (Fin 10) first)
                (default_arg [] updatedAt)) = Inr jsonRes"
  then show "fst (loadDeletedArticleSlugs toString apiKey after first updatedAt net) =
          Inr ([node_slug (update_node edge).
                  edge \<leftarrow> update_edges (updatesSince (updates_data jsonRes)),
                  updateReason edge = DELETED],
               hasNextPage (update_pageInfo (updatesSince (updates_data jsonRes))))"
    by (simp only: loadDeletedArticleSlugs_result map_filter_comprehension sum.case)
next
  assume "updatedAt = None \<or> updatedAt = Some []"
  then have "default_arg [] updatedAt = []"
    by (auto simp: default_arg_def)
  then show \<open>body (loadDeletedArticleSlugs_request toString apiKey (default_arg (Fin 0) after) (default_arg (Fin 10) first)
                (default_arg [] updatedAt)) =
     Raw ((str ''{"query":"'' @ UPDATES_SINCE_DOCUMENT @
         str ''","variables":{"after":"'' @ toString (default_arg (Fin 0) after) @
         str ''","first":'' @ toString (default_arg (Fin 10) first) @ str '', '') @ str ''"since":"2021-01-01"}}'')\<close>
    by (simp add: loadDeletedArticleSlugs_request_def str_def)
qed

text \<open>The example of the specification: a deleted edge \<open>a\<close> and an updated edge \<open>b\<close>.\<close>

theorem loadDeletedArticleSlugs_deleted_witness:
  \<open>fst (loadDeletedArticleSlugs (\<lambda>n. case n of Fin r \<Rightarrow> digits (nat \<lfloor>r\<rfloor>) | _ \<Rightarrow> []) (str ''key'') None None None
      (\<lparr>sent = [], respond = \<lambda>req. Inr
        \<lparr>updates_data = \<lparr>updatesSince = \<lparr>update_edges =
          [\<lparr>updateReason = DELETED, update_node = \<lparr>node_slug = str ''a''\<rparr>\<rparr>,
           \<lparr>updateReason = UPDATED, update_node = \<lparr>node_slug = str ''b''\<rparr>\<rparr>],
          update_pageInfo = \<lparr>hasNextPage = True\<rparr>\<rparr>\<rparr>\<rparr>\<rparr>
        :: UpdatesSinceResponse network)) =
     Inr ([str ''a''], True) \<and>
   (\<exists>req prefix.
      sent (snd (loadDeletedArticleSlugs (\<lambda>n. case n of Fin r \<Rightarrow> digits (nat \<lfloor>r\<rfloor>) | _ \<Rightarrow> []) (str ''key'') None None None
      (\<lparr>sent = [], respond = \<lambda>req. Inr
        \<lparr>updates_data = \<lparr>updatesSince = \<lparr>update_edges =
          [\<lparr>updateReason = DELETED, update_node = \<lparr>node_slug = str ''a''\<rparr>\<rparr>,
           \<lparr>updateReason = UPDATED, update_node = \<lparr>node_slug = str ''b''\<rparr>\<rparr>],
          update_pageInfo = \<lparr>hasNextPage = True\<rparr>\<rparr>\<rparr>\<rparr>\<rparr>
        :: UpdatesSinceResponse network))) =
        [req] \<and>
      body req = Raw (prefix @ str ''"since":"2021-01-01"}}''))\<close>
  using loadDeletedArticleSlugs_deleted [of "(\<lambda>n. case n of Fin r \<Rightarrow> digits (nat \<lfloor>r\<rfloor>) | _ \<Rightarrow> [])" "str ''key''" None None None
      "(\<lparr>sent = [], respond = \<lambda>req. Inr
        \<lparr>updates_data = \<lparr>updatesSince = \<lparr>update_edges =
          [\<lparr>updateReason = DELETED, update_node = \<lparr>node_slug = str ''a''\<rparr>\<rparr>,
           \<lparr>updateReason = UPDATED, update_node = \<lparr>node_slug = str ''b''\<rparr>\<rparr>],
          update_pageInfo = \<lparr>hasNextPage = True\<rparr>\<rparr>\<rparr>\<rparr>\<rparr>
        :: UpdatesSinceResponse network)"]
  by auto

text \<open>
  Claim C10. Both functions keep the order of the response: the articles \<^verbatim>\<open>loadArticles\<close>
  returns are the nodes of the search edges, position by position, and the slugs
  \<^verbatim>\<open>loadDeletedArticleSlugs\<close> returns are those of the edges at the positions of the \<^verbatim>\<open>DELETED\<close>
  edges, in increasing position (\<open>nths\<close> selects the elements at a set of positions and
  keeps their order).
\<close>

theorem load_preserves_order:
  "(\<exists>req.
      sent (snd (loadArticles toString apiKey after first updatedAt query includeContent format net)) =
        sent net @ [req] \<and>
      (\<forall>jsonRes. respond net req = Inr jsonRes \<longrightarrow>
         (\<exists>articles more.
            fst (loadArticles toString apiKey after first updatedAt query includeContent format net) =
              Inr (articles, more) \<and>
            length articles = length (edges (search (data jsonRes))) \<and>
            (\<forall>i < length articles. articles ! i = node (edges (search (data jsonRes)) ! i))))) \<and>
   (\<exists>req.
      sent (snd (loadDeletedArticleSlugs toString' apiKey' after' first' updatedAt' net')) =
        sent net' @ [req] \<and>
      (\<forall>jsonRes. respond net' req = Inr jsonRes \<longrightarrow>
         (\<exists>slugs more.
            fst (loadDeletedArticleSlugs toString' apiKey' after' first' updatedAt' net') = Inr (slugs, more) \<and>
            slugs =
              map (\<lambda>edge. node_slug (update_node edge))
                (nths (update_edges (updatesSince (updates_data jsonRes)))
                   {i. i < length (update_edges (updatesSince (updates_data jsonRes))) \<and>
                       updateReason (update_edges (updatesSince (updates_data jsonRes)) ! i) = DELETED}))))"
proof (intro conjI)
  show "\<exists>req.
      sent (snd (loadArticles toString apiKey after first updatedAt query includeContent format net)) =
        sent net @ [req] \<and>
      (\<forall>jsonRes. respond net req = Inr jsonRes \<longrightarrow>
         (\<exists>articles more.
            fst (loadArticles toString apiKey after first updatedAt query includeContent format net) =
              Inr (articles, more) \<and>
            length articles = length (edges (search (data jsonRes))) \<and>
            (\<forall>i < length articles. articles ! i = node (edges (search (data jsonRes)) ! i))))"
    by (rule exI, rule conjI, rule loadArticles_sent) (simp add: loadArticles_result)
next
  show "\<exists>req.
      sent (snd (loadDeletedArticleSlugs toString' apiKey' after' first' updatedAt' net')) =
        sent net' @ [req] \<and>
      (\<forall>jsonRes. respond net' req = Inr jsonRes \<longrightarrow>
         (\<exists>slugs more.
            fst (loadDeletedArticleSlugs toString' apiKey' after' first' updatedAt' net') = Inr (slugs, more) \<and>
            slugs =
              map (\<lambda>edge. node_slug (update_node edge))
                (nths (update_edges (updatesSince (updates_data jsonRes)))
                   {i. i < length (update_edges (updatesSince (updates_data jsonRes))) \<and>
                       updateReason (update_edges (updatesSince (updates_data jsonRes)) ! i) = DELETED})))"
    by (rule exI, rule conjI, rule loadDeletedArticleSlugs_sent)
      (simp add: loadDeletedArticleSlugs_result filter_eq_nths)
qed

text \<open>
  A search response with two articles, and an updates response whose first and third
  edges are deleted.
\<close>

theorem load_preserves_order_witness:
  "(\<exists>articles more.
      fst (loadArticles (\<lambda>n. case n of Fin r \<Rightarrow> digits (nat \<lfloor>r\<rfloor>) | _ \<Rightarrow> []) (str ''key'') None None None None None None
        (\<lparr>sent = [], respond = \<lambda>req. Inr
        \<lparr>data = \<lparr>search = \<lparr>edges =
          [\<lparr>node =
           \<lparr>title = str ''One'', siteName = [], originalArticleUrl = [], author = [],
            description = [], slug = str ''first'', labels = None, highlights = None,
            article_updatedAt = [], savedAt = [], pageType = ARTICLE, content = None,
            publishedAt = None\<rparr>\<rparr>,
           \<lparr>node =
           \<lparr>title = str ''Two'', siteName = [], originalArticleUrl = [], author = [],
            description = [], slug = str ''second'', labels = None, highlights = None,
            article_updatedAt = [], savedAt = [], pageType = ARTICLE, content = None,
            publishedAt = None\<rparr>\<rparr>],
          pageInfo = \<lparr>hasNextPage = False\<rparr>\<rparr>\<rparr>\<rparr>\<rparr>
        :: SearchResponse network)) =
        Inr (articles, more) \<and>
      length articles = 2 \<and>
      slug (articles ! 0) = str ''first'' \<and> slug (articles ! 1) = str ''second'') \<and>
   (\<exists>more.
      fst (loadDeletedArticleSlugs (\<lambda>n. case n of Fin r \<Rightarrow> digits (nat \<lfloor>r\<rfloor>) | _ \<Rightarrow> []) (str ''key'') None None None
        (\<lparr>sent = [], respond = \<lambda>req. Inr
        \<lparr>updates_data = \<lparr>updatesSince = \<lparr>update_edges =
          [\<lparr>updateReason = DELETED, update_node = \<lparr>node_slug = str ''a''\<rparr>\<rparr>,
           \<lparr>updateReason = UPDATED, update_node = \<lparr>node_slug = str ''b''\<rparr>\<rparr>,
           \<lparr>updateReason = DELETED, update_node = \<lparr>node_slug = str ''c''\<rparr>\<rparr>,
           \<lparr>updateReason = CREATED, update_node = \<lparr>node_slug = str ''d''\<rparr>\<rparr>],
          update_pageInfo = \<lparr>hasNextPage = False\<rparr>\<rparr>\<rparr>\<rparr>\<rparr>
        :: UpdatesSinceResponse network)) =
        Inr ([str ''a'', str ''c''], more))"
proof -
  let ?netS = "(\<lparr>sent = [], respond = \<lambda>req. Inr
        \<lparr>data = \<lparr>search = \<lparr>edges =
          [\<lparr>node =
           \<lparr>title = str ''One'', siteName = [], originalArticleUrl = [], author = [],
            description = [], slug = str ''first'', labels = None, highlights = None,
            article_updatedAt = [], savedAt = [], pageType = ARTICLE, content = None,
            publishedAt = None\<rparr>\<rparr>,
           \<lparr>node =
           \<lparr>title = str ''Two'', siteName = [], originalArticleUrl = [], author = [],
            description = [], slug = str ''second'', labels = None, highlights = None,
            article_updatedAt = [], savedAt = [], pageType = ARTICLE, content = None,
            publishedAt = None\<rparr>\<rparr>],
          pageInfo = \<lparr>hasNextPage = False\<rparr>\<rparr>\<rparr>\<rparr>\<rparr>
        :: SearchResponse network)"
  let ?netU = "(\<lparr>sent = [], respond = \<lambda>req. Inr
        \<lparr>updates_data = \<lparr>updatesSince = \<lparr>update_edges =
          [\<lparr>updateReason = DELETED, update_node = \<lparr>node_slug = str ''a''\<rparr>\<rparr>,
           \<lparr>updateReason = UPDATED, update_node = \<lparr>node_slug = str ''b''\<rparr>\<rparr>,
           \<lparr>updateReason = DELETED, update_node = \<lparr>node_slug = str ''c''\<rparr>\<rparr>,
           \<lparr>updateReason = CREATED, update_node = \<lparr>node_slug = str ''d''\<rparr>\<rparr>],
          update_pageInfo = \<lparr>hasNextPage = False\<rparr>\<rparr>\<rparr>\<rparr>\<rparr>
        :: UpdatesSinceResponse network)"
  let ?es = "[\<lparr>updateReason = DELETED, update_node = \<lparr>node_slug = str ''a''\<rparr>\<rparr>,
              \<lparr>updateReason = UPDATED, update_node = \<lparr>node_slug = str ''b''\<rparr>\<rparr>,
              \<lparr>updateReason = DELETED, update_node = \<lparr>node_slug = str ''c''\<rparr>\<rparr>,
              \<lparr>updateReason = CREATED, update_node = \<lparr>node_slug = str ''d''\<rparr>\<rparr>]"
  have sel: "filter (\<lambda>edge. updateReason edge = DELETED) ?es =
      [\<lparr>updateReason = DELETED, update_node = \<lparr>node_slug = str ''a''\<rparr>\<rparr>,
       \<lparr>updateReason = DELETED, update_node = \<lparr>node_slug = str ''c''\<rparr>\<rparr>]"
    by simp
  from load_preserves_order
    [of "(\<lambda>n. case n of Fin r \<Rightarrow> digits (nat \<lfloor>r\<rfloor>) | _ \<Rightarrow> [])" "str ''key''" None None None None None None ?netS
        "(\<lambda>n. case n of Fin r \<Rightarrow> digits (nat \<lfloor>r\<rfloor>) | _ \<Rightarrow> [])" "str ''key''" None None None ?netU]
  have a: "\<exists>articles more.
      fst (loadArticles (\<lambda>n. case n of Fin r \<Rightarrow> digits (nat \<lfloor>r\<rfloor>) | _ \<Rightarrow> []) (str ''key'') None None None None None None ?netS) = Inr (articles, more) \<and>
      length articles = 2 \<and>
      slug (articles ! 0) = str ''first'' \<and> slug (articles ! 1) = str ''second''"
    and b: "\<exists>more.
      fst (loadDeletedArticleSlugs (\<lambda>n. case n of Fin r \<Rightarrow> digits (nat \<lfloor>r\<rfloor>) | _ \<Rightarrow> []) (str ''key'') None None None ?netU) =
        Inr (map (\<lambda>edge. node_slug (update_node edge))
               (nths ?es {i. i < length ?es \<and> updateReason (?es ! i) = DELETED}), more)"
    by auto
  have sel': "nths ?es {i. i < length ?es \<and> updateReason (?es ! i) = DELETED} =
      filter (\<lambda>edge. updateReason edge = DELETED) ?es"
    by (rule filter_eq_nths [symmetric])
  from b have "\<exists>more.
      fst (loadDeletedArticleSlugs (\<lambda>n. case n of Fin r \<Rightarrow> digits (nat \<lfloor>r\<rfloor>) | _ \<Rightarrow> []) (str ''key'') None None None ?netU) =
        Inr ([str ''a'', str ''c''], more)"
    unfolding sel' sel by simp
  with a show ?thesis by blast
qed

end
